theory Spec2Isabelle
  imports Main
begin

section \<open>Python values\<close>

text \<open>
  The serializer schemas and the migration transform work on JSON-like Python
  data: \<^verbatim>\<open>None\<close>, booleans, unbounded integers, strings, lists and
  dictionaries with string keys. A dictionary is an association list in
  insertion order (Python dictionaries keep it, and \<^verbatim>\<open>values()\<close> follows
  it); a lookup takes the first binding of a key. Floating-point numbers are
  not part of the model.
\<close>

datatype json =
    JNone
  | JBool bool
  | JInt int
  | JStr string
  | JList "json list"
  | JDict "(string \<times> json) list"

text \<open>
  The exceptions the modelled code can raise: the builtin ones of Python, the
  two PID errors that \<^verbatim>\<open>dump_grants\<close> catches, and \<open>ServiceError\<close> for any other
  exception of an external service.
\<close>

datatype error =
    KeyError
  | IndexError
  | TypeError
  | AttributeError
  | PIDDeletedError
  | PIDDoesNotExistError
  | ServiceError

text \<open>
  A result is \<open>Inl\<close> of the exception raised or \<open>Inr\<close> of the value returned;
  \<open>ebind\<close> sequences two computations and stops at the first exception.
\<close>

definition ebind :: "error + 'a \<Rightarrow> ('a \<Rightarrow> error + 'b) \<Rightarrow> error + 'b" where
  "ebind m f = (case m of Inl e \<Rightarrow> Inl e | Inr x \<Rightarrow> f x)"

text \<open>
  marshmallow's \<^verbatim>\<open>missing\<close> sentinel: a method field that returns it is left
  out of the serialized output.
\<close>

datatype field_value = Missing | Dumped json

subsection \<open>Truth value, lookup, iteration\<close>

text \<open>Python's truth value of an object, as \<^verbatim>\<open>if x:\<close> tests it.\<close>

fun truthy :: "json \<Rightarrow> bool" where
  "truthy JNone = False"
| "truthy (JBool b) = b"
| "truthy (JInt n) = (n \<noteq> 0)"
| "truthy (JStr s) = (s \<noteq> [])"
| "truthy (JList xs) = (xs \<noteq> [])"
| "truthy (JDict d) = (d \<noteq> [])"

text \<open>
  \<^verbatim>\<open>obj[key]\<close> with a string key: a dictionary raises KeyError on a missing
  key; every other value raises TypeError (lists and strings want integer
  indices, the rest is not subscriptable).
\<close>

fun py_getitem :: "json \<Rightarrow> string \<Rightarrow> error + json" where
  "py_getitem (JDict d) k = (case map_of d k of None \<Rightarrow> Inl KeyError | Some v \<Rightarrow> Inr v)"
| "py_getitem _ k = Inl TypeError"

text \<open>
  \<^verbatim>\<open>obj.get(key, default)\<close>: only dictionaries have the method; on any other
  value the attribute lookup raises AttributeError. \<^verbatim>\<open>obj.get(key)\<close> is
  \<open>py_get obj key JNone\<close>.
\<close>

fun py_get :: "json \<Rightarrow> string \<Rightarrow> json \<Rightarrow> error + json" where
  "py_get (JDict d) k dflt = (case map_of d k of None \<Rightarrow> Inr dflt | Some v \<Rightarrow> Inr v)"
| "py_get _ k dflt = Inl AttributeError"

text \<open>
  \<^verbatim>\<open>xs[i]\<close> on a sequence of length \<open>n\<close>: the places are \<open>0\<close> to \<open>n - 1\<close>,
  and \<open>- n\<close> to \<open>- 1\<close> for the same places counted from the back; any other
  index raises IndexError.
\<close>

definition py_index :: "'a list \<Rightarrow> int \<Rightarrow> error + 'a" where
  "py_index xs i =
     (if 0 \<le> i \<and> i < int (length xs) then Inr (xs ! nat i)
      else if i < 0 \<and> - int (length xs) \<le> i then Inr (xs ! nat (int (length xs) + i))
      else Inl IndexError)"

text \<open>
  \<^verbatim>\<open>obj[i]\<close> with an integer \<open>i\<close>: a list gives its element, a string the
  one-character string at that place, a dictionary (whose keys are strings)
  raises KeyError, every other value TypeError.
\<close>

fun py_getitem_int :: "json \<Rightarrow> int \<Rightarrow> error + json" where
  "py_getitem_int (JList xs) i = py_index xs i"
| "py_getitem_int (JStr s) i = ebind (py_index s i) (\<lambda>c. Inr (JStr [c]))"
| "py_getitem_int (JDict d) i = Inl KeyError"
| "py_getitem_int _ i = Inl TypeError"

text \<open>
  What a \<^verbatim>\<open>for\<close> loop or a comprehension iterates over: the elements of a
  list, the characters of a string, the keys of a dictionary; the other
  values are not iterable.
\<close>

fun py_iter :: "json \<Rightarrow> error + json list" where
  "py_iter (JList xs) = Inr xs"
| "py_iter (JStr s) = Inr (map (\<lambda>c. JStr [c]) s)"
| "py_iter (JDict d) = Inr (map (\<lambda>kv. JStr (fst kv)) d)"
| "py_iter _ = Inl TypeError"

text \<open>
  \<^verbatim>\<open>d[key] = value\<close> on a dictionary: an existing key keeps its place and
  gets the new value, a new key is added at the end.
\<close>

fun dict_set :: "(string \<times> json) list \<Rightarrow> string \<Rightarrow> json \<Rightarrow> (string \<times> json) list" where
  "dict_set [] k v = [(k, v)]"
| "dict_set ((k', v') # d) k v = (if k' = k then (k, v) # d else (k', v') # dict_set d k v)"

subsection \<open>Strings\<close>

text \<open>
  \<^verbatim>\<open>s.split(sep)\<close> for a one-character separator: the pieces between the
  occurrences of the separator, at least one piece, possibly empty ones.
  \<open>py_split_max\<close> is \<^verbatim>\<open>s.split(sep, maxsplit)\<close>, which splits at the first
  \<open>maxsplit\<close> occurrences only.
\<close>

fun py_split :: "char \<Rightarrow> string \<Rightarrow> string list" where
  "py_split sep [] = [[]]"
| "py_split sep (c # cs) =
     (if c = sep then [] # py_split sep cs
      else (case py_split sep cs of
              [] \<Rightarrow> [[c]]
            | p # ps \<Rightarrow> (c # p) # ps))"

fun py_split_max :: "char \<Rightarrow> nat \<Rightarrow> string \<Rightarrow> string list" where
  "py_split_max sep 0 s = [s]"
| "py_split_max sep (Suc n) [] = [[]]"
| "py_split_max sep (Suc n) (c # cs) =
     (if c = sep then [] # py_split_max sep n cs
      else (case py_split_max sep (Suc n) cs of
              [] \<Rightarrow> [[c]]
            | p # ps \<Rightarrow> (c # p) # ps))"

text \<open>
  \<^verbatim>\<open>str(i)\<close> of an integer: its decimal digits, with a minus sign when
  negative. \<open>digit_char\<close> also gives the lowercase hexadecimal digits.
\<close>

definition digit_char :: "nat \<Rightarrow> char" where
  "digit_char n = ''0123456789abcdef'' ! n"

fun str_nat :: "nat \<Rightarrow> string" where
  "str_nat n = (if n < 10 then [digit_char n] else str_nat (n div 10) @ [digit_char (n mod 10)])"

definition str_int :: "int \<Rightarrow> string" where
  "str_int i = (if i < 0 then CHR ''-'' # str_nat (nat (- i)) else str_nat (nat i))"

text \<open>
  \<^verbatim>\<open>repr(s)\<close> of a string, for characters with code points below 256 (a
  \<^typ>\<open>char\<close> stands for its code point): single quotes around it, double
  quotes when it has a single quote and no double quote; the quote and the
  backslash are escaped, tab, newline and carriage return are written
  \<^verbatim>\<open>\t\<close>, \<^verbatim>\<open>\n\<close>, \<^verbatim>\<open>\r\<close>, every other non-printable character as
  \<^verbatim>\<open>\xhh\<close>.
\<close>

definition printable :: "char \<Rightarrow> bool" where
  "printable c = (let k = (of_char c :: nat) in 32 \<le> k \<and> k < 127 \<or> 161 \<le> k \<and> k \<noteq> 173)"

definition repr_char :: "char \<Rightarrow> char \<Rightarrow> string" where
  "repr_char quote c =
     (if c = quote \<or> c = CHR 0x5C then [CHR 0x5C, c]
      else if c = CHR 0x09 then [CHR 0x5C, CHR ''t'']
      else if c = CHR 0x0A then [CHR 0x5C, CHR ''n'']
      else if c = CHR 0x0D then [CHR 0x5C, CHR ''r'']
      else if printable c then [c]
      else [CHR 0x5C, CHR ''x'', digit_char (of_char c div 16), digit_char (of_char c mod 16)])"

definition repr_str :: "string \<Rightarrow> string" where
  "repr_str s =
     (let quote = (if CHR 0x27 \<in> set s \<and> CHR 0x22 \<notin> set s then CHR 0x22 else CHR 0x27)
      in quote # concat (map (repr_char quote) s) @ [quote])"

text \<open>\<^verbatim>\<open>sep.join(xs)\<close>.\<close>

fun py_join :: "string \<Rightarrow> string list \<Rightarrow> string" where
  "py_join sep [] = []"
| "py_join sep [x] = x"
| "py_join sep (x # y # ys) = x @ sep @ py_join sep (y # ys)"

text \<open>
  \<^verbatim>\<open>repr(v)\<close> and \<^verbatim>\<open>str(v)\<close>; an f-string field \<^verbatim>\<open>{v}\<close> is \<^verbatim>\<open>str(v)\<close>,
  which differs from the representation on strings only.
\<close>

fun py_repr :: "json \<Rightarrow> string" where
  "py_repr JNone = ''None''"
| "py_repr (JBool b) = (if b then ''True'' else ''False'')"
| "py_repr (JInt i) = str_int i"
| "py_repr (JStr s) = repr_str s"
| "py_repr (JList xs) = ''['' @ py_join '', '' (map py_repr xs) @ '']''"
| "py_repr (JDict d) =
     ''{'' @ py_join '', '' (map (\<lambda>kv. repr_str (fst kv) @ '': '' @ py_repr (snd kv)) d) @ ''}''"

fun py_str :: "json \<Rightarrow> string" where
  "py_str (JStr s) = s"
| "py_str v = py_repr v"

text \<open>
  \<^verbatim>\<open>v.split(sep)\<close> and \<^verbatim>\<open>v.split(sep, maxsplit)\<close> on a value: only strings
  have the method.
\<close>

fun str_split :: "json \<Rightarrow> char \<Rightarrow> error + string list" where
  "str_split (JStr s) sep = Inr (py_split sep s)"
| "str_split _ sep = Inl AttributeError"

fun str_split_max :: "json \<Rightarrow> char \<Rightarrow> nat \<Rightarrow> error + string list" where
  "str_split_max (JStr s) sep n = Inr (py_split_max sep n s)"
| "str_split_max _ sep n = Inl AttributeError"

subsection \<open>Arithmetic and assignment\<close>

text \<open>
  \<^verbatim>\<open>a + b\<close>: integers add without bound (a boolean counts as 0 or 1),
  strings and lists concatenate, anything else raises TypeError.
\<close>

fun as_int :: "json \<Rightarrow> int option" where
  "as_int (JInt i) = Some i"
| "as_int (JBool b) = Some (if b then 1 else 0)"
| "as_int _ = None"

fun py_add :: "json \<Rightarrow> json \<Rightarrow> error + json" where
  "py_add (JStr a) (JStr b) = Inr (JStr (a @ b))"
| "py_add (JList a) (JList b) = Inr (JList (a @ b))"
| "py_add a b =
     (case as_int a of
        None \<Rightarrow> Inl TypeError
      | Some x \<Rightarrow> (case as_int b of None \<Rightarrow> Inl TypeError | Some y \<Rightarrow> Inr (JInt (x + y))))"

text \<open>
  \<^verbatim>\<open>obj[key] = value\<close> with a string key: a dictionary is updated, every
  other value raises TypeError.
\<close>

fun py_setitem :: "json \<Rightarrow> string \<Rightarrow> json \<Rightarrow> error + json" where
  "py_setitem (JDict d) k v = Inr (JDict (dict_set d k v))"
| "py_setitem _ k v = Inl TypeError"

section \<open>The legacy JSON serializer (legacyjson.py)\<close>

subsection \<open>MetadataSchema.dump\_grants\<close>

text \<open>
  What \<^verbatim>\<open>dump_grants\<close> uses from outside the module, taken as parameters:
  \<^item> \<open>awards_read\<close> and \<open>funders_read\<close>: the \<^verbatim>\<open>read(system_identity, id).to_dict()\<close>
    of the awards and of the funders service, the exception of a failed read
    as \<open>Inl\<close>;
  \<^item> \<open>award_fn\<close> and \<open>funder_fn\<close>: the methods \<^verbatim>\<open>_award\<close> and \<^verbatim>\<open>_funder\<close>
    that the schema inherits from \<^verbatim>\<open>common.MetadataSchema\<close>;
  \<^item> \<open>FUNDER_ROR_TO_DOI\<close>: the table of \<^verbatim>\<open>zenodo_legacy.funders\<close>, from the
    ROR identifier of a funder to its DOI, both strings.
\<close>

record services =
  awards_read :: "json \<Rightarrow> error + json"
  funders_read :: "json \<Rightarrow> error + json"
  award_fn :: "json \<Rightarrow> error + json"
  funder_fn :: "json \<Rightarrow> error + json"
  FUNDER_ROR_TO_DOI :: "string \<rightharpoonup> string"

text \<open>
  \<^verbatim>\<open>FUNDER_ROR_TO_DOI.get(key)\<close>: a list or a dictionary is unhashable
  (TypeError); a key that is no string is not in the table.
\<close>

fun table_get :: "(string \<rightharpoonup> string) \<Rightarrow> json \<Rightarrow> error + json" where
  "table_get t (JStr s) = Inr (case t s of None \<Rightarrow> JNone | Some d \<Rightarrow> JStr d)"
| "table_get t (JList xs) = Inl TypeError"
| "table_get t (JDict d) = Inl TypeError"
| "table_get t _ = Inr JNone"

text \<open>
  Lines 33 to 45, the first half of the loop body: the award of a funding
  item, read from the awards service when it has an id. \<open>Inr Missing\<close> is the
  \<^verbatim>\<open>return missing\<close> of the exception handler, which ends the whole method;
  any other exception of the read propagates.
\<close>

definition resolve_award :: "services \<Rightarrow> json \<Rightarrow> error + field_value" where
  "resolve_award sv funding_item =
     ebind (py_get funding_item ''award'' JNone) (\<lambda>award.
     ebind (py_get award ''id'' JNone) (\<lambda>aid.
       if truthy aid then
         (case awards_read sv aid of
            Inl e \<Rightarrow>
              if e = PIDDeletedError \<or> e = PIDDoesNotExistError then Inr Missing else Inl e
          | Inr a \<Rightarrow> Inr (Dumped a))
       else Inr (Dumped award)))"

text \<open>
  Lines 47 to 61, the second half: the funder is read under the id in the
  award's \<^verbatim>\<open>funder\<close> sub-object, the legacy grant is built (and not used), and
  the serialized grant is formatted from the DOI of the funder and the number
  of the award.
\<close>

definition serialize_grant :: "services \<Rightarrow> json \<Rightarrow> error + json" where
  "serialize_grant sv award =
     ebind (py_getitem award ''funder'') (\<lambda>award_funder.
     ebind (py_getitem award_funder ''id'') (\<lambda>fid.
     ebind (funders_read sv fid) (\<lambda>funder.
     ebind (award_fn sv award) (\<lambda>legacy_grant.
     ebind (funder_fn sv funder) (\<lambda>legacy_funder.
     ebind (py_setitem legacy_grant ''funder'' legacy_funder) (\<lambda>legacy_grant'.
     ebind (py_getitem award ''number'') (\<lambda>award_number.
     ebind (py_getitem funder ''id'') (\<lambda>funder_id.
     ebind (table_get (FUNDER_ROR_TO_DOI sv) funder_id) (\<lambda>funder_doi.
       Inr (JDict [(''id'', JStr (py_str funder_doi @ ''::'' @ py_str award_number))]))))))))))"

text \<open>The loop over the funding items, \<open>ret\<close> the list built so far.\<close>

fun dump_grants_loop :: "services \<Rightarrow> json list \<Rightarrow> json list \<Rightarrow> error + field_value" where
  "dump_grants_loop sv ret [] = Inr (Dumped (JList ret))"
| "dump_grants_loop sv ret (funding_item # rest) =
     ebind (resolve_award sv funding_item) (\<lambda>r.
       case r of
         Missing \<Rightarrow> Inr Missing
       | Dumped award \<Rightarrow>
           ebind (serialize_grant sv award) (\<lambda>serialized_grant.
             dump_grants_loop sv (ret @ [serialized_grant]) rest))"

definition dump_grants :: "services \<Rightarrow> json \<Rightarrow> error + field_value" where
  "dump_grants sv obj =
     ebind (py_get obj ''funding'' JNone) (\<lambda>funding.
       if \<not> truthy funding then Inr Missing
       else ebind (py_iter funding) (\<lambda>items. dump_grants_loop sv [] items))"

subsection \<open>MetadataSchema.dump\_resource\_type\<close>

text \<open>
  The post-dump hook gets the serialized dictionary \<open>result\<close> and the original
  object, and returns the dictionary it has updated.
\<close>

text \<open>
  \<^verbatim>\<open>"c" in v\<close> for a one-character string: a substring test on a string,
  membership in a list, a key test on a dictionary, TypeError on a value that
  is no container.
\<close>

fun char_in :: "char \<Rightarrow> json \<Rightarrow> error + bool" where
  "char_in c (JStr s) = Inr (c \<in> set s)"
| "char_in c (JList xs) = Inr (JStr [c] \<in> set xs)"
| "char_in c (JDict d) = Inr ([c] \<in> set (map fst d))"
| "char_in c _ = Inl TypeError"

definition dump_resource_type :: "(string \<times> json) list \<Rightarrow> json \<Rightarrow> error + (string \<times> json) list" where
  "dump_resource_type result original =
     ebind (py_get original ''resource_type'' (JDict [])) (\<lambda>resource_type.
     ebind (py_get resource_type ''id'' JNone) (\<lambda>resource_type_id.
       if truthy resource_type_id then
         ebind (str_split resource_type_id CHR ''-'') (\<lambda>parts.
         ebind (py_index parts 0) (\<lambda>upload_type.
           let result1 = dict_set result ''upload_type'' (JStr upload_type) in
           ebind (char_in CHR ''-'' resource_type_id) (\<lambda>has_subtype.
             if has_subtype then
               ebind (str_split resource_type_id CHR ''-'') (\<lambda>parts'.
               ebind (py_index parts' (- 1)) (\<lambda>subtype.
                 Inr (dict_set result1 (upload_type @ ''_type'') (JStr subtype))))
             else Inr result1)))
       else Inr result))"

subsection \<open>LegacySchema.dump\_files and LegacySchema.dump\_state\<close>

text \<open>\<^verbatim>\<open>d.values()\<close>: the values of a dictionary in insertion order.\<close>

fun py_values :: "json \<Rightarrow> error + json list" where
  "py_values (JDict d) = Inr (map snd d)"
| "py_values _ = Inl AttributeError"

text \<open>
  The body of the loop of \<^verbatim>\<open>dump_files\<close>: the serialized entry of one file
  \<open>f\<close>. The download link is added when the bucket URL is true.
\<close>

definition dump_file :: "json \<Rightarrow> json \<Rightarrow> json \<Rightarrow> error + json" where
  "dump_file bucket_url files_url f =
     ebind (py_getitem f ''id'') (\<lambda>fid.
     let links = [(''self'', JStr (py_str files_url @ ''/'' @ py_str fid))] in
     ebind (if truthy bucket_url then
              ebind (py_getitem f ''key'') (\<lambda>k.
                Inr (dict_set links ''download'' (JStr (py_str bucket_url @ ''/'' @ py_str k))))
            else Inr links) (\<lambda>links'.
     ebind (py_getitem f ''id'') (\<lambda>id'.
     ebind (py_getitem f ''key'') (\<lambda>filename.
     ebind (py_getitem f ''size'') (\<lambda>filesize.
     ebind (py_getitem f ''checksum'') (\<lambda>cs.
     ebind (str_split_max cs CHR '':'' 1) (\<lambda>parts.
     ebind (py_index parts 1) (\<lambda>checksum.
       Inr (JDict [(''id'', id'), (''filename'', filename), (''filesize'', filesize),
                   (''checksum'', JStr checksum), (''links'', JDict links')])))))))))"

fun dump_files_loop :: "json \<Rightarrow> json \<Rightarrow> json list \<Rightarrow> json list \<Rightarrow> error + json list" where
  "dump_files_loop bucket_url files_url result [] = Inr result"
| "dump_files_loop bucket_url files_url result (f # fs) =
     ebind (dump_file bucket_url files_url f) (\<lambda>d.
       dump_files_loop bucket_url files_url (result @ [d]) fs)"

text \<open>\<^verbatim>\<open>result or missing\<close> gives the sentinel for the empty list.\<close>

definition dump_files :: "json \<Rightarrow> error + field_value" where
  "dump_files obj =
     ebind (py_getitem obj ''links'') (\<lambda>links.
     ebind (py_get links ''bucket'' JNone) (\<lambda>bucket_url.
     ebind (py_getitem obj ''links'') (\<lambda>links2.
     ebind (py_getitem links2 ''files'') (\<lambda>files_url.
     ebind (py_getitem obj ''files'') (\<lambda>files.
     ebind (py_getitem files ''entries'') (\<lambda>entries.
     ebind (py_values entries) (\<lambda>fs.
     ebind (dump_files_loop bucket_url files_url [] fs) (\<lambda>result.
       Inr (if truthy (JList result) then Dumped (JList result) else Missing)))))))))"

definition dump_state :: "json \<Rightarrow> error + string" where
  "dump_state obj =
     ebind (py_getitem obj ''is_published'') (\<lambda>is_published.
       if truthy is_published then
         ebind (py_getitem obj ''is_draft'') (\<lambda>is_draft.
           if truthy is_draft then Inr ''inprogress'' else Inr ''done'')
       else Inr ''unsubmitted'')"

section \<open>The migration transform (records.py)\<close>

text \<open>
  The methods of \<^verbatim>\<open>ZenodoRecordEntry\<close> are named \<open>entry_\<close>\<dots>, those of
  \<^verbatim>\<open>ZenodoRecordTransform\<close> \<open>transform_\<close>\<dots>, after the source's names
  \<^verbatim>\<open>_index\<close>, \<^verbatim>\<open>_files\<close>, \<^verbatim>\<open>_access\<close>, \<^verbatim>\<open>_community_id\<close>, \<^verbatim>\<open>_parent\<close>,
  \<^verbatim>\<open>_draft\<close> and \<^verbatim>\<open>_draft_files\<close>. The argument \<open>entry\<close> is the legacy entry.
\<close>

definition entry_index :: "json \<Rightarrow> error + json" where
  "entry_index entry = ebind (py_get entry ''index'' (JInt 0)) (\<lambda>i. py_add i (JInt 1))"

definition entry_files :: "json \<Rightarrow> json" where
  "entry_files entry = JDict [(''enabled'', JBool True)]"

definition entry_access :: "json \<Rightarrow> error + json" where
  "entry_access entry =
     ebind (py_getitem entry ''json'') (\<lambda>rec.
     ebind (py_getitem rec ''access_right'') (\<lambda>access_right.
     let is_open = (access_right = JStr ''open'');
         r = [(''record'', JStr ''public''),
              (''files'', JStr (if is_open then ''public'' else ''restricted''))]
     in ebind (py_getitem rec ''access_right'') (\<lambda>access_right'.
          if access_right' = JStr ''embargoed'' then
            ebind (py_getitem rec ''embargo_date'') (\<lambda>embargo_date.
              Inr (JDict (dict_set r ''embargo''
                     (JDict [(''until'', embargo_date), (''active'', JBool True)]))))
          else Inr (JDict r))))"

definition transform_community_id :: "json \<Rightarrow> error + json" where
  "transform_community_id entry =
     ebind (py_getitem entry ''json'') (\<lambda>rec.
     ebind (py_get rec ''communities'' JNone) (\<lambda>communities.
       if truthy communities then
         ebind (py_getitem_int communities 0) (\<lambda>slug.
           if truthy slug then Inr (JDict [(''ids'', JList [slug]), (''default'', slug)])
           else Inr (JDict []))
       else Inr (JDict [])))"

text \<open>The entries of the dictionary display are evaluated in the order written.\<close>

definition transform_parent :: "json \<Rightarrow> error + json" where
  "transform_parent entry =
     ebind (py_getitem entry ''created'') (\<lambda>created.
     ebind (py_getitem entry ''updated'') (\<lambda>updated.
     ebind (py_getitem entry ''version_id'') (\<lambda>version_id.
     ebind (py_getitem entry ''json'') (\<lambda>rec.
     ebind (py_getitem rec ''conceptrecid'') (\<lambda>conceptrecid.
     ebind (py_getitem entry ''json'') (\<lambda>rec'.
     ebind (py_get rec' ''owners'' (JList [])) (\<lambda>owners.
     ebind (py_iter owners) (\<lambda>os.
     ebind (transform_community_id entry) (\<lambda>communities.
       Inr (JDict
         [(''created'', created),
          (''updated'', updated),
          (''version_id'', version_id),
          (''json'', JDict
             [(''id'', conceptrecid),
              (''access'', JDict [(''owned_by'', JList (map (\<lambda>ow. JDict [(''user'', ow)]) os))]),
              (''communities'', communities)])]))))))))))"

definition transform_draft :: "json \<Rightarrow> json" where
  "transform_draft entry = JNone"

definition transform_draft_files :: "json \<Rightarrow> json" where
  "transform_draft_files entry = JNone"

section \<open>Notions of the specification\<close>

text \<open>
  The specification speaks of parts of a string: what stands before the first
  occurrence of a character, after its first occurrence, and after its last
  one. They are defined here on their own, not through \<open>py_split\<close>.
\<close>

definition before_first :: "char \<Rightarrow> string \<Rightarrow> string" where
  "before_first c s = takeWhile (\<lambda>x. x \<noteq> c) s"

definition after_first :: "char \<Rightarrow> string \<Rightarrow> string" where
  "after_first c s = tl (dropWhile (\<lambda>x. x \<noteq> c) s)"

definition after_last :: "char \<Rightarrow> string \<Rightarrow> string" where
  "after_last c s = rev (takeWhile (\<lambda>x. x \<noteq> c) (rev s))"

text \<open>
  A file entry as the records hold it: a dictionary with \<^verbatim>\<open>id\<close>, \<^verbatim>\<open>key\<close>,
  \<^verbatim>\<open>size\<close> and a \<^verbatim>\<open>checksum\<close> string with the algorithm before a colon, such
  as \<^verbatim>\<open>md5:2942bfabb3d05332b66eb128e0842cff\<close>.
\<close>

fun checksum_ok :: "json option \<Rightarrow> bool" where
  "checksum_ok (Some (JStr cs)) = (CHR '':'' \<in> set cs)"
| "checksum_ok _ = False"

fun file_ok :: "json \<Rightarrow> bool" where
  "file_ok (JDict d) =
     (map_of d ''id'' \<noteq> None \<and> map_of d ''key'' \<noteq> None \<and> map_of d ''size'' \<noteq> None \<and>
      checksum_ok (map_of d ''checksum''))"
| "file_ok _ = False"

text \<open>
  What the specification says of the serialized entry \<open>r\<close> of a file \<open>f\<close>: its
  checksum is the stored one without the algorithm and the colon, and its
  links have a \<^verbatim>\<open>download\<close> exactly when the record has a bucket URL.
\<close>

definition file_dumped :: "bool \<Rightarrow> json \<Rightarrow> json \<Rightarrow> bool" where
  "file_dumped has_bucket f r \<longleftrightarrow>
     (\<exists>cs lk. py_getitem f ''checksum'' = Inr (JStr cs) \<and>
        py_getitem r ''checksum'' = Inr (JStr (after_first CHR '':'' cs)) \<and>
        py_getitem r ''links'' = Inr (JDict lk) \<and>
        (map_of lk ''download'' \<noteq> None) = has_bucket)"

text \<open>
  The second case in which the specification has \<^verbatim>\<open>dump_grants\<close> return
  \<^verbatim>\<open>missing\<close>: the funding item refers to an award by an id, and reading that
  award raises PIDDeletedError or PIDDoesNotExistError.
\<close>

definition award_read_fails :: "services \<Rightarrow> json \<Rightarrow> bool" where
  "award_read_fails sv funding_item =
     (case py_get funding_item ''award'' JNone of
        Inl e \<Rightarrow> False
      | Inr award \<Rightarrow>
          (case py_get award ''id'' JNone of
             Inl e \<Rightarrow> False
           | Inr aid \<Rightarrow>
               truthy aid \<and>
               (awards_read sv aid = Inl PIDDeletedError \<or>
                awards_read sv aid = Inl PIDDoesNotExistError)))"

text \<open>
  The serialized grant \<open>g\<close> of a funding item, in the words of the
  specification: \<^verbatim>\<open>{"id": "<funder_doi>::<award_number>"}\<close>, where the number is
  that of the resolved award and the DOI is the entry of \<open>FUNDER_ROR_TO_DOI\<close>
  for the funder id in the \<^verbatim>\<open>funder\<close> sub-object of the resolved award
  (\<^verbatim>\<open>None\<close> when the table has none). The \<^verbatim>\<open>funder\<close> field of the funding item
  does not occur.
\<close>

definition grant_of :: "services \<Rightarrow> json \<Rightarrow> json \<Rightarrow> bool" where
  "grant_of sv funding_item g \<longleftrightarrow>
     (\<exists>award award_funder fid funder_doi award_number.
        resolve_award sv funding_item = Inr (Dumped award) \<and>
        py_getitem award ''funder'' = Inr award_funder \<and>
        py_getitem award_funder ''id'' = Inr fid \<and>
        table_get (FUNDER_ROR_TO_DOI sv) fid = Inr funder_doi \<and>
        py_getitem award ''number'' = Inr award_number \<and>
        g = JDict [(''id'', JStr (py_str funder_doi @ ''::'' @ py_str award_number))])"

text \<open>
  Services to run the serializer on: one award of one funder, every other id
  unknown to the services; \<^verbatim>\<open>_award\<close> and \<^verbatim>\<open>_funder\<close> keep the code of the award
  and the name of the funder.
\<close>

definition example_services :: services where
  "example_services =
     \<lparr>awards_read = (\<lambda>aid.
        if aid = JStr ''00k4n6c32::755021''
        then Inr (JDict [(''id'', JStr ''00k4n6c32::755021''), (''number'', JStr ''755021''),
                         (''funder'', JDict [(''id'', JStr ''00k4n6c32'')])])
        else Inl PIDDoesNotExistError),
      funders_read = (\<lambda>fid.
        if fid = JStr ''00k4n6c32''
        then Inr (JDict [(''id'', JStr ''00k4n6c32''), (''name'', JStr ''European Commission'')])
        else Inl PIDDoesNotExistError),
      award_fn = (\<lambda>award. ebind (py_getitem award ''number'') (\<lambda>n. Inr (JDict [(''code'', n)]))),
      funder_fn = (\<lambda>funder. ebind (py_getitem funder ''name'') (\<lambda>n. Inr (JDict [(''name'', n)]))),
      FUNDER_ROR_TO_DOI = [''00k4n6c32'' \<mapsto> ''10.13039/501100000780'']\<rparr>"

text \<open>
  A funding item of an award the services know (its own \<^verbatim>\<open>funder\<close> names
  another funder), and one of an award they do not know.
\<close>

definition known_funding :: json where
  "known_funding =
     JDict [(''funder'', JDict [(''id'', JStr ''021nxhr62'')]),
            (''award'', JDict [(''id'', JStr ''00k4n6c32::755021'')])]"

definition unknown_funding :: json where
  "unknown_funding =
     JDict [(''funder'', JDict [(''id'', JStr ''00k4n6c32'')]),
            (''award'', JDict [(''id'', JStr ''00k4n6c32::000000'')])]"

section \<open>Properties\<close>

lemma ebind_Inl [simp]: "ebind (Inl e) f = Inl e"
  by (simp add: ebind_def)

lemma ebind_Inr [simp]: "ebind (Inr x) f = f x"
  by (simp add: ebind_def)

subsection \<open>The migration transform\<close>

text \<open>
  C10: the migration produces no draft data and does not carry file metadata
  into the files flag of the record: for every entry \<^verbatim>\<open>_draft\<close> and
  \<^verbatim>\<open>_draft_files\<close> return \<^verbatim>\<open>None\<close>, and \<^verbatim>\<open>_files\<close> returns the constant
  \<^verbatim>\<open>{"enabled": True}\<close>, whatever the entry holds.
\<close>

theorem migration_no_draft_constant_files:
  "transform_draft entry = JNone \<and> transform_draft_files entry = JNone
   \<and> entry_files entry = JDict [(''enabled'', JBool True)]"
  by (simp add: transform_draft_def transform_draft_files_def entry_files_def)

text \<open>
  C7: for an entry (a dictionary) \<^verbatim>\<open>_index\<close> returns the integer under
  \<^verbatim>\<open>index\<close> plus one, and exactly 1 when the entry has no key \<^verbatim>\<open>index\<close>.
\<close>

theorem entry_index_plus_one:
  "(map_of e ''index'' = Some (JInt n) \<longrightarrow> entry_index (JDict e) = Inr (JInt (n + 1)))
   \<and> (map_of e ''index'' = None \<longrightarrow> entry_index (JDict e) = Inr (JInt 1))"
  by (simp add: entry_index_def)

theorem entry_index_plus_one_witness:
  "entry_index (JDict [(''index'', JInt 0)]) = Inr (JInt 1)
   \<and> entry_index (JDict [(''index'', JInt 41)]) = Inr (JInt 42)
   \<and> entry_index (JDict [(''created'', JStr ''2017-01-01'')]) = Inr (JInt 1)"
  using entry_index_plus_one [of "[(''index'', JInt 0)]" 0]
    entry_index_plus_one [of "[(''index'', JInt 41)]" 41]
    entry_index_plus_one [of "[(''created'', JStr ''2017-01-01'')]"]
  by simp

text \<open>
  C9: \<^verbatim>\<open>_community_id\<close> looks at the first element of the list under
  \<^verbatim>\<open>communities\<close> only. When the list is not empty and its first element
  \<open>slug\<close> is true, the result is \<^verbatim>\<open>{"ids": [slug], "default": slug}\<close>, whatever
  the rest of the list is; when the first element is false, the list is empty
  or the key is absent, the result is the empty dictionary.
\<close>

theorem transform_community_id_first_only:
  assumes "map_of e ''json'' = Some (JDict j)"
  shows "(map_of j ''communities'' = Some (JList (slug # rest)) \<and> truthy slug \<longrightarrow>
            transform_community_id (JDict e) =
              Inr (JDict [(''ids'', JList [slug]), (''default'', slug)]))
       \<and> (map_of j ''communities'' = Some (JList (slug # rest)) \<and> \<not> truthy slug \<longrightarrow>
            transform_community_id (JDict e) = Inr (JDict []))
       \<and> (map_of j ''communities'' = Some (JList []) \<or> map_of j ''communities'' = None \<longrightarrow>
            transform_community_id (JDict e) = Inr (JDict []))"
  using assms by (auto simp add: transform_community_id_def py_index_def)

theorem transform_community_id_first_only_witness:
  "transform_community_id
     (JDict [(''json'', JDict [(''communities'', JList [JStr ''zenodo'', JStr ''ecfunded''])])]) =
   Inr (JDict [(''ids'', JList [JStr ''zenodo'']), (''default'', JStr ''zenodo'')])
   \<and> transform_community_id
     (JDict [(''json'', JDict [(''communities'', JList [JStr [], JStr ''ecfunded''])])]) =
   Inr (JDict [])
   \<and> transform_community_id (JDict [(''json'', JDict [(''communities'', JList [])])]) =
   Inr (JDict [])
   \<and> transform_community_id (JDict [(''json'', JDict [(''recid'', JInt 7)])]) = Inr (JDict [])"
  using
    transform_community_id_first_only
      [of "[(''json'', JDict [(''communities'', JList [JStr ''zenodo'', JStr ''ecfunded''])])]"
          "[(''communities'', JList [JStr ''zenodo'', JStr ''ecfunded''])]"
          "JStr ''zenodo''" "[JStr ''ecfunded'']"]
    transform_community_id_first_only
      [of "[(''json'', JDict [(''communities'', JList [JStr [], JStr ''ecfunded''])])]"
          "[(''communities'', JList [JStr [], JStr ''ecfunded''])]"
          "JStr []" "[JStr ''ecfunded'']"]
    transform_community_id_first_only
      [of "[(''json'', JDict [(''communities'', JList [])])]" "[(''communities'', JList [])]"]
    transform_community_id_first_only
      [of "[(''json'', JDict [(''recid'', JInt 7)])]" "[(''recid'', JInt 7)]"]
  by simp

text \<open>
  C5: for an entry whose \<^verbatim>\<open>json\<close> has an \<^verbatim>\<open>access_right\<close> (and an
  \<^verbatim>\<open>embargo_date\<close> when that is \<^verbatim>\<open>"embargoed"\<close>), \<^verbatim>\<open>_access\<close> returns a
  dictionary whose \<^verbatim>\<open>record\<close> is \<^verbatim>\<open>"public"\<close>; whose \<^verbatim>\<open>files\<close> is \<^verbatim>\<open>"public"\<close>
  when the access right is \<^verbatim>\<open>"open"\<close> and \<^verbatim>\<open>"restricted"\<close> otherwise; and
  which has the key \<^verbatim>\<open>embargo\<close> exactly when the access right is
  \<^verbatim>\<open>"embargoed"\<close>, with \<^verbatim>\<open>until\<close> the embargo date of the entry and \<^verbatim>\<open>active\<close>
  true.
\<close>

theorem entry_access_visibility:
  assumes "map_of e ''json'' = Some (JDict j)"
    and "map_of j ''access_right'' = Some ar"
    and "ar = JStr ''embargoed'' \<longrightarrow> map_of j ''embargo_date'' = Some until"
  shows "\<exists>r. entry_access (JDict e) = Inr (JDict r)
    \<and> map_of r ''record'' = Some (JStr ''public'')
    \<and> map_of r ''files'' = Some (JStr (if ar = JStr ''open'' then ''public'' else ''restricted''))
    \<and> map_of r ''embargo'' =
        (if ar = JStr ''embargoed''
         then Some (JDict [(''until'', until), (''active'', JBool True)])
         else None)"
  using assms by (auto simp add: entry_access_def Let_def)

theorem entry_access_visibility_witness:
  "(\<exists>r. entry_access (JDict [(''json'', JDict [(''access_right'', JStr ''embargoed''),
                                                (''embargo_date'', JStr ''2030-01-01'')])]) =
          Inr (JDict r)
      \<and> map_of r ''record'' = Some (JStr ''public'')
      \<and> map_of r ''files'' = Some (JStr ''restricted'')
      \<and> map_of r ''embargo'' =
          Some (JDict [(''until'', JStr ''2030-01-01''), (''active'', JBool True)]))
   \<and> (\<exists>r. entry_access (JDict [(''json'', JDict [(''access_right'', JStr ''open'')])]) =
          Inr (JDict r)
      \<and> map_of r ''record'' = Some (JStr ''public'')
      \<and> map_of r ''files'' = Some (JStr ''public'')
      \<and> map_of r ''embargo'' = None)
   \<and> (\<exists>r. entry_access (JDict [(''json'', JDict [(''access_right'', JStr ''closed'')])]) =
          Inr (JDict r)
      \<and> map_of r ''record'' = Some (JStr ''public'')
      \<and> map_of r ''files'' = Some (JStr ''restricted'')
      \<and> map_of r ''embargo'' = None)"
  using
    entry_access_visibility
      [of "[(''json'', JDict [(''access_right'', JStr ''embargoed''),
                             (''embargo_date'', JStr ''2030-01-01'')])]"
          "[(''access_right'', JStr ''embargoed''), (''embargo_date'', JStr ''2030-01-01'')]"
          "JStr ''embargoed''" "JStr ''2030-01-01''"]
    entry_access_visibility
      [of "[(''json'', JDict [(''access_right'', JStr ''open'')])]"
          "[(''access_right'', JStr ''open'')]" "JStr ''open''" JNone]
    entry_access_visibility
      [of "[(''json'', JDict [(''access_right'', JStr ''closed'')])]"
          "[(''access_right'', JStr ''closed'')]" "JStr ''closed''" JNone]
  by simp

text \<open>
  C6: for an entry with \<^verbatim>\<open>created\<close>, \<^verbatim>\<open>updated\<close>, \<^verbatim>\<open>version_id\<close> and a \<^verbatim>\<open>json\<close>
  that has a \<^verbatim>\<open>conceptrecid\<close>, \<^verbatim>\<open>_parent\<close> returns a parent whose \<^verbatim>\<open>created\<close>,
  \<^verbatim>\<open>updated\<close> and \<^verbatim>\<open>version_id\<close> are those of the entry, whose json \<^verbatim>\<open>id\<close> is
  the \<^verbatim>\<open>conceptrecid\<close>, and whose \<^verbatim>\<open>access.owned_by\<close> has one \<^verbatim>\<open>{"user": o}\<close>
  for each element \<open>o\<close> of the list \<^verbatim>\<open>owners\<close>, in its order, and is empty
  when the key \<^verbatim>\<open>owners\<close> is absent. The communities are what
  \<^verbatim>\<open>_community_id\<close> returns.
\<close>

theorem transform_parent_fields:
  assumes "map_of e ''created'' = Some created"
    and "map_of e ''updated'' = Some updated"
    and "map_of e ''version_id'' = Some version_id"
    and "map_of e ''json'' = Some (JDict j)"
    and "map_of j ''conceptrecid'' = Some conceptrecid"
    and "map_of j ''owners'' = Some (JList owners) \<or> map_of j ''owners'' = None \<and> owners = []"
    and "map_of j ''communities'' = Some (JList slugs) \<or> map_of j ''communities'' = None"
  shows "\<exists>communities. transform_community_id (JDict e) = Inr communities \<and>
    transform_parent (JDict e) =
      Inr (JDict
        [(''created'', created),
         (''updated'', updated),
         (''version_id'', version_id),
         (''json'', JDict
            [(''id'', conceptrecid),
             (''access'', JDict
                [(''owned_by'', JList (map (\<lambda>ow. JDict [(''user'', ow)]) owners))]),
             (''communities'', communities)])])"
proof -
  have "\<exists>communities. transform_community_id (JDict e) = Inr communities"
    using assms(4,7)
    by (cases slugs) (auto simp add: transform_community_id_def py_index_def)
  then obtain communities where c: "transform_community_id (JDict e) = Inr communities" ..
  have "py_get (JDict j) ''owners'' (JList []) = Inr (JList owners)"
    using assms(6) by auto
  then show ?thesis
    using assms(1-5) c by (simp add: transform_parent_def)
qed

theorem transform_parent_fields_witness:
  "(\<exists>communities.
      transform_community_id
        (JDict [(''created'', JStr ''2015-01-01''), (''updated'', JStr ''2016-02-02''),
                (''version_id'', JInt 3),
                (''json'', JDict [(''conceptrecid'', JStr ''123''),
                                  (''owners'', JList [JInt 5, JInt 9])])]) = Inr communities \<and>
      transform_parent
        (JDict [(''created'', JStr ''2015-01-01''), (''updated'', JStr ''2016-02-02''),
                (''version_id'', JInt 3),
                (''json'', JDict [(''conceptrecid'', JStr ''123''),
                                  (''owners'', JList [JInt 5, JInt 9])])]) =
      Inr (JDict
        [(''created'', JStr ''2015-01-01''),
         (''updated'', JStr ''2016-02-02''),
         (''version_id'', JInt 3),
         (''json'', JDict
            [(''id'', JStr ''123''),
             (''access'', JDict
                [(''owned_by'', JList [JDict [(''user'', JInt 5)], JDict [(''user'', JInt 9)]])]),
             (''communities'', communities)])]))
   \<and> (\<exists>communities.
      transform_community_id
        (JDict [(''created'', JStr ''2015-01-01''), (''updated'', JStr ''2016-02-02''),
                (''version_id'', JInt 3),
                (''json'', JDict [(''conceptrecid'', JStr ''123'')])]) = Inr communities \<and>
      transform_parent
        (JDict [(''created'', JStr ''2015-01-01''), (''updated'', JStr ''2016-02-02''),
                (''version_id'', JInt 3),
                (''json'', JDict [(''conceptrecid'', JStr ''123'')])]) =
      Inr (JDict
        [(''created'', JStr ''2015-01-01''),
         (''updated'', JStr ''2016-02-02''),
         (''version_id'', JInt 3),
         (''json'', JDict
            [(''id'', JStr ''123''),
             (''access'', JDict [(''owned_by'', JList [])]),
             (''communities'', communities)])]))"
  using
    transform_parent_fields
      [of "[(''created'', JStr ''2015-01-01''), (''updated'', JStr ''2016-02-02''),
            (''version_id'', JInt 3),
            (''json'', JDict [(''conceptrecid'', JStr ''123''),
                              (''owners'', JList [JInt 5, JInt 9])])]"
          "JStr ''2015-01-01''" "JStr ''2016-02-02''" "JInt 3"
          "[(''conceptrecid'', JStr ''123''), (''owners'', JList [JInt 5, JInt 9])]"
          "JStr ''123''" "[JInt 5, JInt 9]" "[]"]
    transform_parent_fields
      [of "[(''created'', JStr ''2015-01-01''), (''updated'', JStr ''2016-02-02''),
            (''version_id'', JInt 3),
            (''json'', JDict [(''conceptrecid'', JStr ''123'')])]"
          "JStr ''2015-01-01''" "JStr ''2016-02-02''" "JInt 3"
          "[(''conceptrecid'', JStr ''123'')]"
          "JStr ''123''" "[]" "[]"]
  by simp

subsection \<open>The legacy JSON serializer\<close>

text \<open>
  C3: for a record whose \<^verbatim>\<open>is_published\<close> and \<^verbatim>\<open>is_draft\<close> are booleans,
  \<^verbatim>\<open>dump_state\<close> returns one of three values, a function of the two booleans
  alone: \<^verbatim>\<open>"unsubmitted"\<close> when \<^verbatim>\<open>is_published\<close> is false, \<^verbatim>\<open>"inprogress"\<close>
  when both are true, \<^verbatim>\<open>"done"\<close> when \<^verbatim>\<open>is_published\<close> is true and \<^verbatim>\<open>is_draft\<close>
  is false.
\<close>

theorem dump_state_three_values:
  assumes "map_of d ''is_published'' = Some (JBool published)"
    and "map_of d ''is_draft'' = Some (JBool draft)"
  shows "dump_state (JDict d) =
    Inr (if \<not> published then ''unsubmitted'' else if draft then ''inprogress'' else ''done'')"
  using assms by (simp add: dump_state_def)

theorem dump_state_three_values_witness:
  "dump_state (JDict [(''is_published'', JBool True), (''is_draft'', JBool True)]) =
     Inr ''inprogress''
   \<and> dump_state (JDict [(''is_published'', JBool True), (''is_draft'', JBool False)]) =
     Inr ''done''
   \<and> dump_state (JDict [(''is_published'', JBool False), (''is_draft'', JBool True)]) =
     Inr ''unsubmitted''
   \<and> dump_state (JDict [(''is_published'', JBool False), (''is_draft'', JBool False)]) =
     Inr ''unsubmitted''"
  using
    dump_state_three_values
      [of "[(''is_published'', JBool True), (''is_draft'', JBool True)]" True True]
    dump_state_three_values
      [of "[(''is_published'', JBool True), (''is_draft'', JBool False)]" True False]
    dump_state_three_values
      [of "[(''is_published'', JBool False), (''is_draft'', JBool True)]" False True]
    dump_state_three_values
      [of "[(''is_published'', JBool False), (''is_draft'', JBool False)]" False False]
  by simp

text \<open>Splitting, read through the notions of the specification.\<close>

lemma py_split_not_Nil: "py_split sep s \<noteq> []"
  by (induction s) (auto split: list.splits)

lemma py_split_no_sep: "sep \<notin> set s \<Longrightarrow> py_split sep s = [s]"
  by (induction s) auto

lemma py_split_append: "py_split sep (p @ sep # b) = py_split sep p @ py_split sep b"
  by (induction p) (auto split: list.splits simp add: py_split_not_Nil)

lemma hd_py_split: "hd (py_split sep s) = before_first sep s"
  unfolding before_first_def
  by (induction s) (auto split: list.splits simp add: py_split_not_Nil)

lemma last_py_split: "last (py_split sep s) = after_last sep s"
proof (cases "sep \<in> set s")
  case False
  then have "takeWhile (\<lambda>x. x \<noteq> sep) (rev s) = rev s"
    by (auto simp add: takeWhile_eq_all_conv)
  then have "after_last sep s = s"
    unfolding after_last_def by (simp only: rev_rev_ident)
  with False show ?thesis
    by (simp add: py_split_no_sep)
next
  case True
  then obtain p b where s: "s = p @ sep # b" and b: "sep \<notin> set b"
    by (auto dest: split_list_last)
  have "last (py_split sep s) = last (py_split sep b)"
    by (simp add: s py_split_append py_split_not_Nil)
  also have "\<dots> = b"
    using b by (simp add: py_split_no_sep)
  also have "b = after_last sep s"
    using b by (simp add: s after_last_def takeWhile_append)
  finally show ?thesis .
qed

lemma py_split_max_once:
  "sep \<in> set s \<Longrightarrow> py_split_max sep (Suc 0) s = [before_first sep s, after_first sep s]"
  by (induction s) (auto simp add: before_first_def after_first_def)

lemma py_split_max_once_no_sep: "sep \<notin> set s \<Longrightarrow> py_split_max sep (Suc 0) s = [s]"
  by (induction s) auto

lemma py_index_first: "xs \<noteq> [] \<Longrightarrow> py_index xs 0 = Inr (hd xs)"
  by (cases xs) (auto simp add: py_index_def)

lemma py_index_last: "xs \<noteq> [] \<Longrightarrow> py_index xs (- 1) = Inr (last xs)"
  by (cases xs rule: rev_cases) (auto simp add: py_index_def nth_append)

text \<open>
  C4: for a record whose \<^verbatim>\<open>resource_type.id\<close> is a non-empty string,
  \<^verbatim>\<open>dump_resource_type\<close> sets \<^verbatim>\<open>upload_type\<close> in the result to what stands
  before the first \<^verbatim>\<open>-\<close> of the id and, exactly when the id has a \<^verbatim>\<open>-\<close>,
  additionally sets the field named \<^verbatim>\<open><upload_type>_type\<close> to what stands
  after the last \<^verbatim>\<open>-\<close>; nothing else is assigned, so the middle segments of an
  id with more than one \<^verbatim>\<open>-\<close> go to no field. A record with no
  \<^verbatim>\<open>resource_type\<close>, or whose \<^verbatim>\<open>resource_type\<close> has no id or a false one, is
  returned unchanged.
\<close>

theorem dump_resource_type_fields:
  "(map_of orig ''resource_type'' = Some (JDict rt) \<and> map_of rt ''id'' = Some (JStr rid) \<and>
      rid \<noteq> [] \<longrightarrow>
      dump_resource_type result (JDict orig) =
        Inr (if CHR ''-'' \<in> set rid
             then dict_set (dict_set result ''upload_type'' (JStr (before_first CHR ''-'' rid)))
                    (before_first CHR ''-'' rid @ ''_type'') (JStr (after_last CHR ''-'' rid))
             else dict_set result ''upload_type'' (JStr (before_first CHR ''-'' rid))))
   \<and> (map_of orig ''resource_type'' = None \<or>
       map_of orig ''resource_type'' = Some (JDict rt) \<and>
         (map_of rt ''id'' = None \<or> map_of rt ''id'' = Some falsy \<and> \<not> truthy falsy) \<longrightarrow>
      dump_resource_type result (JDict orig) = Inr result)"
proof (intro conjI impI)
  assume "map_of orig ''resource_type'' = Some (JDict rt) \<and> map_of rt ''id'' = Some (JStr rid) \<and>
    rid \<noteq> []"
  then show "dump_resource_type result (JDict orig) =
    Inr (if CHR ''-'' \<in> set rid
         then dict_set (dict_set result ''upload_type'' (JStr (before_first CHR ''-'' rid)))
                (before_first CHR ''-'' rid @ ''_type'') (JStr (after_last CHR ''-'' rid))
         else dict_set result ''upload_type'' (JStr (before_first CHR ''-'' rid)))"
    by (simp add: dump_resource_type_def py_index_first py_index_last py_split_not_Nil
        hd_py_split last_py_split Let_def)
next
  assume "map_of orig ''resource_type'' = None \<or>
    map_of orig ''resource_type'' = Some (JDict rt) \<and>
      (map_of rt ''id'' = None \<or> map_of rt ''id'' = Some falsy \<and> \<not> truthy falsy)"
  then show "dump_resource_type result (JDict orig) = Inr result"
    by (auto simp add: dump_resource_type_def)
qed

theorem dump_resource_type_fields_witness:
  "dump_resource_type [(''title'', JStr ''A map'')]
     (JDict [(''resource_type'', JDict [(''id'', JStr ''image-old-photo'')])]) =
     Inr [(''title'', JStr ''A map''), (''upload_type'', JStr ''image''),
          (''image_type'', JStr ''photo'')]
   \<and> dump_resource_type [(''title'', JStr ''A map'')]
     (JDict [(''resource_type'', JDict [(''id'', JStr ''dataset'')])]) =
     Inr [(''title'', JStr ''A map''), (''upload_type'', JStr ''dataset'')]
   \<and> dump_resource_type [(''title'', JStr ''A map'')] (JDict [(''title'', JStr ''A map'')]) =
     Inr [(''title'', JStr ''A map'')]"
proof -
  have bf: "before_first CHR ''-'' ''image-old-photo'' = ''image''"
    "before_first CHR ''-'' ''dataset'' = ''dataset''"
    by (simp_all add: before_first_def)
  have al: "after_last CHR ''-'' ''image-old-photo'' = ''photo''"
    by (simp add: after_last_def)
  show ?thesis
    using
      dump_resource_type_fields
        [of "[(''resource_type'', JDict [(''id'', JStr ''image-old-photo'')])]"
            "[(''id'', JStr ''image-old-photo'')]" "''image-old-photo''"
            "[(''title'', JStr ''A map'')]" JNone]
      dump_resource_type_fields
        [of "[(''resource_type'', JDict [(''id'', JStr ''dataset'')])]"
            "[(''id'', JStr ''dataset'')]" "''dataset''"
            "[(''title'', JStr ''A map'')]" JNone]
      dump_resource_type_fields
        [of "[(''title'', JStr ''A map'')]" "[]" "''x''" "[(''title'', JStr ''A map'')]" JNone]
    by (simp add: bf al)
qed

text \<open>One file entry, and the loop over the entries.\<close>

lemma file_okE:
  assumes "file_ok f"
  obtains d i k sz cs where "f = JDict d" "map_of d ''id'' = Some i" "map_of d ''key'' = Some k"
    "map_of d ''size'' = Some sz" "map_of d ''checksum'' = Some (JStr cs)" "CHR '':'' \<in> set cs"
proof -
  from assms obtain d where f: "f = JDict d"
    by (cases f) simp_all
  from assms obtain cs where cs: "map_of d ''checksum'' = Some (JStr cs)" "CHR '':'' \<in> set cs"
    unfolding f by (auto elim: checksum_ok.elims)
  from assms f cs that show thesis
    by auto
qed

lemma dump_file_ok:
  assumes "map_of d ''id'' = Some i" "map_of d ''key'' = Some k" "map_of d ''size'' = Some sz"
    "map_of d ''checksum'' = Some (JStr cs)" "CHR '':'' \<in> set cs"
  shows "dump_file b u (JDict d) =
    Inr (JDict [(''id'', i), (''filename'', k), (''filesize'', sz),
                (''checksum'', JStr (after_first CHR '':'' cs)),
                (''links'', JDict ((''self'', JStr (py_str u @ ''/'' @ py_str i)) #
                   (if truthy b then [(''download'', JStr (py_str b @ ''/'' @ py_str k))]
                    else [])))])"
  using assms by (simp add: dump_file_def Let_def py_split_max_once py_index_def)

lemma dump_file_dumped:
  assumes "file_ok f"
  shows "\<exists>r. dump_file b u f = Inr r \<and> file_dumped (truthy b) f r"
proof -
  from assms obtain d i k sz cs where f: "f = JDict d" and d: "map_of d ''id'' = Some i"
    "map_of d ''key'' = Some k" "map_of d ''size'' = Some sz"
    "map_of d ''checksum'' = Some (JStr cs)" "CHR '':'' \<in> set cs"
    by (rule file_okE)
  show ?thesis
    unfolding f dump_file_ok [OF d] using d(4) by (simp add: file_dumped_def)
qed

lemma dump_files_loop_ok:
  "\<forall>f\<in>set fs. file_ok f \<Longrightarrow>
   \<exists>rs. dump_files_loop b u acc fs = Inr (acc @ rs) \<and> list_all2 (file_dumped (truthy b)) fs rs"
proof (induction fs arbitrary: acc)
  case Nil
  then show ?case by simp
next
  case (Cons f fs)
  then obtain r where r: "dump_file b u f = Inr r" "file_dumped (truthy b) f r"
    using dump_file_dumped [of f b u] by auto
  from Cons obtain rs where
    rs: "dump_files_loop b u (acc @ [r]) fs = Inr ((acc @ [r]) @ rs)"
      "list_all2 (file_dumped (truthy b)) fs rs"
    by fastforce
  show ?case
    using r rs by (intro exI [of _ "r # rs"]) simp
qed

text \<open>
  C8: for a record with \<^verbatim>\<open>links.files\<close> and file entries as above,
  \<^verbatim>\<open>dump_files\<close> returns \<^verbatim>\<open>missing\<close> when there is no file entry, and otherwise
  a list with one serialized entry for each file, in order, whose \<^verbatim>\<open>checksum\<close>
  is the stored one with everything up to and including the first colon
  removed, and whose links have a \<^verbatim>\<open>download\<close> exactly when the links of the
  record have a \<^verbatim>\<open>bucket\<close> that is true (a non-empty URL).
\<close>

theorem dump_files_entries:
  assumes "map_of obj ''links'' = Some (JDict links)"
    and "map_of links ''files'' = Some files_url"
    and "map_of obj ''files'' = Some (JDict files)"
    and "map_of files ''entries'' = Some (JDict entries)"
    and "\<forall>f\<in>set (map snd entries). file_ok f"
  shows "(entries = [] \<longrightarrow> dump_files (JDict obj) = Inr Missing) \<and>
    (entries \<noteq> [] \<longrightarrow>
      (\<exists>rs. dump_files (JDict obj) = Inr (Dumped (JList rs)) \<and>
         list_all2 (file_dumped (\<exists>b. map_of links ''bucket'' = Some b \<and> truthy b))
           (map snd entries) rs))"
proof -
  define bucket_url
    where "bucket_url = (case map_of links ''bucket'' of None \<Rightarrow> JNone | Some b \<Rightarrow> b)"
  have b: "py_get (JDict links) ''bucket'' JNone = Inr bucket_url"
    by (simp add: bucket_url_def split: option.splits)
  have tb: "truthy bucket_url = (\<exists>b. map_of links ''bucket'' = Some b \<and> truthy b)"
    by (simp add: bucket_url_def split: option.splits)
  obtain rs where rs: "dump_files_loop bucket_url files_url [] (map snd entries) = Inr ([] @ rs)"
    "list_all2 (file_dumped (truthy bucket_url)) (map snd entries) rs"
    using dump_files_loop_ok [OF assms(5)] by blast
  have len: "length rs = length entries"
    using rs(2) by (auto dest: list_all2_lengthD)
  have "dump_files (JDict obj) = Inr (if rs \<noteq> [] then Dumped (JList rs) else Missing)"
    using assms(1-4) b rs(1) by (simp add: dump_files_def)
  then show ?thesis
    using rs(2) len unfolding tb by auto
qed

theorem dump_files_entries_witness:
  "(\<exists>rs. dump_files
       (JDict [(''links'', JDict [(''files'', JStr ''https://zenodo.org/api/records/1/files''),
                                   (''bucket'', JStr ''https://zenodo.org/api/files/b1'')]),
               (''files'', JDict [(''entries'', JDict
                  [(''a.txt'', JDict [(''id'', JStr ''f1''), (''key'', JStr ''a.txt''),
                                      (''size'', JInt 3), (''checksum'', JStr ''md5:0a:1b'')])])])]) =
       Inr (Dumped (JList rs)) \<and>
     list_all2 (file_dumped True)
       [JDict [(''id'', JStr ''f1''), (''key'', JStr ''a.txt''),
               (''size'', JInt 3), (''checksum'', JStr ''md5:0a:1b'')]] rs)
   \<and> dump_files
       (JDict [(''links'', JDict [(''files'', JStr ''https://zenodo.org/api/records/1/files'')]),
               (''files'', JDict [(''entries'', JDict [])])]) = Inr Missing"
  using
    dump_files_entries
      [of "[(''links'', JDict [(''files'', JStr ''https://zenodo.org/api/records/1/files''),
                              (''bucket'', JStr ''https://zenodo.org/api/files/b1'')]),
            (''files'', JDict [(''entries'', JDict
               [(''a.txt'', JDict [(''id'', JStr ''f1''), (''key'', JStr ''a.txt''),
                                   (''size'', JInt 3), (''checksum'', JStr ''md5:0a:1b'')])])])]"
          "[(''files'', JStr ''https://zenodo.org/api/records/1/files''),
            (''bucket'', JStr ''https://zenodo.org/api/files/b1'')]"
          "JStr ''https://zenodo.org/api/records/1/files''"
          "[(''entries'', JDict
               [(''a.txt'', JDict [(''id'', JStr ''f1''), (''key'', JStr ''a.txt''),
                                   (''size'', JInt 3), (''checksum'', JStr ''md5:0a:1b'')])])]"
          "[(''a.txt'', JDict [(''id'', JStr ''f1''), (''key'', JStr ''a.txt''),
                              (''size'', JInt 3), (''checksum'', JStr ''md5:0a:1b'')])]"]
    dump_files_entries
      [of "[(''links'', JDict [(''files'', JStr ''https://zenodo.org/api/records/1/files'')]),
            (''files'', JDict [(''entries'', JDict [])])]"
          "[(''files'', JStr ''https://zenodo.org/api/records/1/files'')]"
          "JStr ''https://zenodo.org/api/records/1/files''"
          "[(''entries'', JDict [])]" "[]"]
  by simp

text \<open>
  The serialized entry of this record, computed: the checksum keeps what
  follows the first colon, later colons included.
\<close>

lemma dump_file_example:
  "dump_file (JStr ''https://zenodo.org/api/files/b1'')
     (JStr ''https://zenodo.org/api/records/1/files'')
     (JDict [(''id'', JStr ''f1''), (''key'', JStr ''a.txt''),
             (''size'', JInt 3), (''checksum'', JStr ''md5:0a:1b'')]) =
   Inr (JDict [(''id'', JStr ''f1''), (''filename'', JStr ''a.txt''), (''filesize'', JInt 3),
               (''checksum'', JStr ''0a:1b''),
               (''links'', JDict
                  [(''self'', JStr ''https://zenodo.org/api/records/1/files/f1''),
                   (''download'', JStr ''https://zenodo.org/api/files/b1/a.txt'')])])"
  by (simp add: dump_file_def py_index_def)

text \<open>The loop of \<^verbatim>\<open>dump_grants\<close>.\<close>

lemma ebind_eq_Inr: "(ebind step rest = Inr res) = (\<exists>v. step = Inr v \<and> rest v = Inr res)"
  by (cases step) simp_all

lemma resolve_award_cases:
  assumes "py_get funding_item ''award'' JNone = Inr own"
    and "py_get own ''id'' JNone = Inr aid"
  shows "resolve_award sv funding_item =
    (if truthy aid then
       (case awards_read sv aid of
          Inl e \<Rightarrow> if e = PIDDeletedError \<or> e = PIDDoesNotExistError then Inr Missing else Inl e
        | Inr a \<Rightarrow> Inr (Dumped a))
     else Inr (Dumped own))"
  using assms by (simp add: resolve_award_def)

lemma resolve_award_Dumped_iff:
  "resolve_award sv funding_item = Inr (Dumped award) \<longleftrightarrow>
     (\<exists>own aid. py_get funding_item ''award'' JNone = Inr own \<and>
        py_get own ''id'' JNone = Inr aid \<and>
        (if truthy aid then awards_read sv aid = Inr award else award = own))"
proof (cases "py_get funding_item ''award'' JNone")
  case (Inl e)
  then show ?thesis
    by (simp add: resolve_award_def)
next
  case own: (Inr own)
  show ?thesis
  proof (cases "py_get own ''id'' JNone")
    case (Inl e)
    with own show ?thesis
      by (simp add: resolve_award_def)
  next
    case aid: (Inr aid)
    show ?thesis
      using own aid
      by (cases "awards_read sv aid") (auto simp add: resolve_award_cases [OF own aid])
  qed
qed

lemma resolve_award_Missing_iff:
  "resolve_award sv funding_item = Inr Missing \<longleftrightarrow> award_read_fails sv funding_item"
proof (cases "py_get funding_item ''award'' JNone")
  case (Inl e)
  then show ?thesis
    by (simp add: resolve_award_def award_read_fails_def)
next
  case own: (Inr own)
  show ?thesis
  proof (cases "py_get own ''id'' JNone")
    case (Inl e)
    with own show ?thesis
      by (simp add: resolve_award_def award_read_fails_def)
  next
    case aid: (Inr aid)
    show ?thesis
      using own aid
      by (cases "awards_read sv aid")
        (auto simp add: resolve_award_cases [OF own aid] award_read_fails_def)
  qed
qed

lemma dump_grants_loop_Cons:
  "dump_grants_loop sv ret (item # items) = Inr v \<longleftrightarrow>
     resolve_award sv item = Inr Missing \<and> v = Missing \<or>
     (\<exists>award g. resolve_award sv item = Inr (Dumped award) \<and>
        serialize_grant sv award = Inr g \<and>
        dump_grants_loop sv (ret @ [g]) items = Inr v)"
proof (cases "resolve_award sv item")
  case (Inl e)
  then show ?thesis by simp
next
  case (Inr r)
  show ?thesis
  proof (cases r)
    case Missing
    with Inr show ?thesis by auto
  next
    case (Dumped award)
    with Inr show ?thesis
      by (cases "serialize_grant sv award") simp_all
  qed
qed

lemma serialize_grant_shape:
  assumes "\<forall>fid funder. funders_read sv fid = Inr funder \<longrightarrow> py_getitem funder ''id'' = Inr fid"
    and "serialize_grant sv award = Inr g"
  shows "\<exists>award_funder fid funder_doi award_number.
    py_getitem award ''funder'' = Inr award_funder \<and>
    py_getitem award_funder ''id'' = Inr fid \<and>
    table_get (FUNDER_ROR_TO_DOI sv) fid = Inr funder_doi \<and>
    py_getitem award ''number'' = Inr award_number \<and>
    g = JDict [(''id'', JStr (py_str funder_doi @ ''::'' @ py_str award_number))]"
proof -
  from assms(2) obtain award_funder fid funder award_number funder_id funder_doi where
    s: "py_getitem award ''funder'' = Inr award_funder"
      "py_getitem award_funder ''id'' = Inr fid"
      "funders_read sv fid = Inr funder"
      "py_getitem award ''number'' = Inr award_number"
      "py_getitem funder ''id'' = Inr funder_id"
      "table_get (FUNDER_ROR_TO_DOI sv) funder_id = Inr funder_doi"
      "g = JDict [(''id'', JStr (py_str funder_doi @ ''::'' @ py_str award_number))]"
    unfolding serialize_grant_def ebind_eq_Inr by blast
  from assms(1) s(3,5) have "funder_id = fid"
    by auto
  with s show ?thesis
    by blast
qed

lemma dump_grants_loop_Dumped:
  "dump_grants_loop sv ret items = Inr (Dumped r) \<Longrightarrow>
   \<exists>gs. r = JList (ret @ gs) \<and>
     list_all2 (\<lambda>item g. \<exists>award. resolve_award sv item = Inr (Dumped award) \<and>
       serialize_grant sv award = Inr g) items gs"
proof (induction items arbitrary: ret)
  case Nil
  then show ?case by simp
next
  case (Cons item items)
  from Cons.prems obtain award g where
    a: "resolve_award sv item = Inr (Dumped award)" and
    g: "serialize_grant sv award = Inr g" and
    rest: "dump_grants_loop sv (ret @ [g]) items = Inr (Dumped r)"
    unfolding dump_grants_loop_Cons by blast
  from Cons.IH [OF rest] obtain gs where
    "r = JList ((ret @ [g]) @ gs)"
    "list_all2 (\<lambda>item g. \<exists>award. resolve_award sv item = Inr (Dumped award) \<and>
       serialize_grant sv award = Inr g) items gs"
    by blast
  with a g show ?case
    by (intro exI [of _ "g # gs"]) auto
qed

lemma dump_grants_loop_total:
  "\<forall>item\<in>set items. \<exists>award g. resolve_award sv item = Inr (Dumped award) \<and>
     serialize_grant sv award = Inr g \<Longrightarrow>
   \<exists>gs. dump_grants_loop sv ret items = Inr (Dumped (JList gs))"
proof (induction items arbitrary: ret)
  case Nil
  then show ?case by simp
next
  case (Cons item items)
  then obtain award g where "resolve_award sv item = Inr (Dumped award)"
    "serialize_grant sv award = Inr g"
    by auto
  moreover from Cons obtain gs where
    "dump_grants_loop sv (ret @ [g]) items = Inr (Dumped (JList gs))"
    by fastforce
  ultimately show ?case
    by simp
qed

lemma dump_grants_loop_Missing_iff:
  "dump_grants_loop sv ret items = Inr Missing \<longleftrightarrow>
   (\<exists>pre item post. items = pre @ item # post \<and>
      (\<forall>x\<in>set pre. \<exists>award g. resolve_award sv x = Inr (Dumped award) \<and>
         serialize_grant sv award = Inr g) \<and>
      award_read_fails sv item)"
proof (induction items arbitrary: ret)
  case Nil
  then show ?case by simp
next
  case (Cons i items)
  show ?case
  proof
    assume m: "dump_grants_loop sv ret (i # items) = Inr Missing"
    then obtain r where r: "resolve_award sv i = Inr r"
      unfolding dump_grants_loop_Cons by blast
    show "\<exists>pre item post. i # items = pre @ item # post \<and>
      (\<forall>x\<in>set pre. \<exists>award g. resolve_award sv x = Inr (Dumped award) \<and>
         serialize_grant sv award = Inr g) \<and>
      award_read_fails sv item"
    proof (cases r)
      case Missing
      with r have "award_read_fails sv i"
        by (simp add: resolve_award_Missing_iff)
      then show ?thesis
        by (intro exI [of _ "[]"] exI [of _ i] exI [of _ items]) simp
    next
      case (Dumped award)
      with m r obtain g where g: "serialize_grant sv award = Inr g"
        and rest: "dump_grants_loop sv (ret @ [g]) items = Inr Missing"
        unfolding dump_grants_loop_Cons by auto
      from rest obtain pre item post where p: "items = pre @ item # post"
        "\<forall>x\<in>set pre. \<exists>award g. resolve_award sv x = Inr (Dumped award) \<and>
           serialize_grant sv award = Inr g"
        "award_read_fails sv item"
        unfolding Cons.IH by blast
      from p r Dumped g show ?thesis
        by (intro exI [of _ "i # pre"] exI [of _ item] exI [of _ post]) auto
    qed
  next
    assume "\<exists>pre item post. i # items = pre @ item # post \<and>
      (\<forall>x\<in>set pre. \<exists>award g. resolve_award sv x = Inr (Dumped award) \<and>
         serialize_grant sv award = Inr g) \<and>
      award_read_fails sv item"
    then obtain pre item post where p: "i # items = pre @ item # post"
      "\<forall>x\<in>set pre. \<exists>award g. resolve_award sv x = Inr (Dumped award) \<and>
         serialize_grant sv award = Inr g"
      "award_read_fails sv item"
      by blast
    show "dump_grants_loop sv ret (i # items) = Inr Missing"
    proof (cases pre)
      case Nil
      with p show ?thesis
        by (simp add: resolve_award_Missing_iff [symmetric])
    next
      case (Cons i' pre')
      with p have i: "i' = i" and items: "items = pre' @ item # post"
        by simp_all
      from p(2) Cons i obtain award g where ag: "resolve_award sv i = Inr (Dumped award)"
        "serialize_grant sv award = Inr g"
        by auto
      have "dump_grants_loop sv (ret @ [g]) items = Inr Missing"
        unfolding Cons.IH using items p(2,3) Cons by auto
      with ag show ?thesis
        by simp
    qed
  qed
qed

text \<open>
  C2: for a record whose \<^verbatim>\<open>funding\<close> is absent or a list, \<^verbatim>\<open>dump_grants\<close>
  returns \<^verbatim>\<open>missing\<close> in exactly two cases: the funding is absent or empty; or
  the loop comes to a funding item whose award read raises PIDDeletedError or
  PIDDoesNotExistError. In the second case the items before it were resolved
  and serialized, and their grants are dropped with the rest.
\<close>

theorem dump_grants_missing_iff:
  assumes "map_of d ''funding'' = None \<and> items = [] \<or> map_of d ''funding'' = Some (JList items)"
  shows "dump_grants sv (JDict d) = Inr Missing \<longleftrightarrow>
    items = [] \<or>
    (\<exists>pre item post. items = pre @ item # post \<and>
       (\<forall>x\<in>set pre. \<exists>award g. resolve_award sv x = Inr (Dumped award) \<and>
          serialize_grant sv award = Inr g) \<and>
       award_read_fails sv item)"
proof (cases "items = []")
  case True
  with assms show ?thesis
    by (auto simp add: dump_grants_def)
next
  case False
  with assms have "dump_grants sv (JDict d) = dump_grants_loop sv [] items"
    by (auto simp add: dump_grants_def)
  with False show ?thesis
    by (simp add: dump_grants_loop_Missing_iff)
qed

lemma known_funding_serialized:
  "resolve_award example_services known_funding =
     Inr (Dumped (JDict [(''id'', JStr ''00k4n6c32::755021''), (''number'', JStr ''755021''),
                         (''funder'', JDict [(''id'', JStr ''00k4n6c32'')])]))"
  "serialize_grant example_services
     (JDict [(''id'', JStr ''00k4n6c32::755021''), (''number'', JStr ''755021''),
             (''funder'', JDict [(''id'', JStr ''00k4n6c32'')])]) =
     Inr (JDict [(''id'', JStr ''10.13039/501100000780::755021'')])"
  by (simp_all add: resolve_award_def serialize_grant_def example_services_def known_funding_def)

lemma unknown_funding_fails: "award_read_fails example_services unknown_funding"
  by (simp add: award_read_fails_def example_services_def unknown_funding_def)

theorem dump_grants_missing_iff_witness:
  "dump_grants example_services (JDict [(''title'', JStr ''A map'')]) = Inr Missing
   \<and> dump_grants example_services (JDict [(''funding'', JList [])]) = Inr Missing
   \<and> dump_grants example_services
       (JDict [(''funding'', JList [known_funding, unknown_funding])]) = Inr Missing
   \<and> dump_grants example_services (JDict [(''funding'', JList [known_funding])]) \<noteq> Inr Missing"
proof -
  have 1: "dump_grants example_services (JDict [(''title'', JStr ''A map'')]) = Inr Missing"
    using dump_grants_missing_iff [of "[(''title'', JStr ''A map'')]" "[]" example_services]
    by simp
  have 2: "dump_grants example_services (JDict [(''funding'', JList [])]) = Inr Missing"
    using dump_grants_missing_iff [of "[(''funding'', JList [])]" "[]" example_services]
    by simp
  have "\<exists>pre item post. [known_funding, unknown_funding] = pre @ item # post \<and>
      (\<forall>x\<in>set pre. \<exists>award g. resolve_award example_services x = Inr (Dumped award) \<and>
         serialize_grant example_services award = Inr g) \<and>
      award_read_fails example_services item"
    using known_funding_serialized unknown_funding_fails
    by (intro exI [of _ "[known_funding]"] exI [of _ unknown_funding] exI [of _ "[]"]) simp
  then have 3: "dump_grants example_services
      (JDict [(''funding'', JList [known_funding, unknown_funding])]) = Inr Missing"
    using dump_grants_missing_iff
      [of "[(''funding'', JList [known_funding, unknown_funding])]"
          "[known_funding, unknown_funding]" example_services]
    by simp
  have "\<not> award_read_fails example_services known_funding"
    by (simp add: award_read_fails_def example_services_def known_funding_def)
  then have "\<not> (\<exists>pre item post. [known_funding] = pre @ item # post \<and>
      (\<forall>x\<in>set pre. \<exists>award g. resolve_award example_services x = Inr (Dumped award) \<and>
         serialize_grant example_services award = Inr g) \<and>
      award_read_fails example_services item)"
    by (auto simp add: Cons_eq_append_conv)
  then have 4: "dump_grants example_services (JDict [(''funding'', JList [known_funding])]) \<noteq>
      Inr Missing"
    using dump_grants_missing_iff
      [of "[(''funding'', JList [known_funding])]" "[known_funding]" example_services]
    by simp
  from 1 2 3 4 show ?thesis
    by simp
qed

text \<open>
  C1, as the code has it. For a record whose \<^verbatim>\<open>funding\<close> is a non-empty list,
  with a funders service that returns the funder under the id it was asked
  for: whenever \<^verbatim>\<open>dump_grants\<close> returns a list, the list has one serialized
  grant for each funding item, in order, each \<^verbatim>\<open>{"id": "<funder_doi>::<award_number>"}\<close>
  with the number of the resolved award and the DOI that \<open>FUNDER_ROR_TO_DOI\<close>
  has for the funder id in the \<^verbatim>\<open>funder\<close> sub-object of the resolved award;
  and it returns such a list when every funding item is resolved and
  serialized, that is when no read and no lookup raises.
\<close>

theorem dump_grants_one_grant_per_item:
  assumes "map_of d ''funding'' = Some (JList items)"
    and "items \<noteq> []"
    and "\<forall>fid funder. funders_read sv fid = Inr funder \<longrightarrow> py_getitem funder ''id'' = Inr fid"
  shows "(\<forall>r. dump_grants sv (JDict d) = Inr (Dumped r) \<longrightarrow>
            (\<exists>gs. r = JList gs \<and> list_all2 (grant_of sv) items gs))
    \<and> ((\<forall>item\<in>set items. \<exists>award g. resolve_award sv item = Inr (Dumped award) \<and>
            serialize_grant sv award = Inr g) \<longrightarrow>
         (\<exists>gs. dump_grants sv (JDict d) = Inr (Dumped (JList gs)) \<and>
            list_all2 (grant_of sv) items gs))"
proof -
  have loop: "dump_grants sv (JDict d) = dump_grants_loop sv [] items"
    using assms(1,2) by (simp add: dump_grants_def)
  have shape: "\<exists>gs. r = JList gs \<and> list_all2 (grant_of sv) items gs"
    if "dump_grants sv (JDict d) = Inr (Dumped r)" for r
  proof -
    from that obtain gs where r: "r = JList gs" and
      gs: "list_all2 (\<lambda>item g. \<exists>award. resolve_award sv item = Inr (Dumped award) \<and>
        serialize_grant sv award = Inr g) items gs"
      unfolding loop by (auto dest: dump_grants_loop_Dumped)
    have "list_all2 (grant_of sv) items gs"
      using gs
    proof (rule list_all2_mono)
      fix item g
      assume "\<exists>award. resolve_award sv item = Inr (Dumped award) \<and>
        serialize_grant sv award = Inr g"
      then obtain award where "resolve_award sv item = Inr (Dumped award)"
        "serialize_grant sv award = Inr g"
        by blast
      with serialize_grant_shape [OF assms(3), of award g] show "grant_of sv item g"
        unfolding grant_of_def by blast
    qed
    with r show ?thesis
      by blast
  qed
  have total: "\<exists>gs. dump_grants sv (JDict d) = Inr (Dumped (JList gs)) \<and>
      list_all2 (grant_of sv) items gs"
    if "\<forall>item\<in>set items. \<exists>award g. resolve_award sv item = Inr (Dumped award) \<and>
      serialize_grant sv award = Inr g"
  proof -
    from dump_grants_loop_total [OF that, of "[]"] obtain gs where
      gs: "dump_grants sv (JDict d) = Inr (Dumped (JList gs))"
      unfolding loop by blast
    from shape [OF gs] show ?thesis
      using gs by auto
  qed
  from shape total show ?thesis
    by blast
qed

theorem dump_grants_one_grant_per_item_witness:
  "\<exists>gs. dump_grants example_services (JDict [(''funding'', JList [known_funding])]) =
      Inr (Dumped (JList gs)) \<and>
    list_all2 (grant_of example_services) [known_funding] gs"
proof -
  have contract: "\<forall>fid funder. funders_read example_services fid = Inr funder \<longrightarrow>
      py_getitem funder ''id'' = Inr fid"
    by (auto simp add: example_services_def split: if_splits)
  have all: "\<forall>item\<in>set [known_funding]. \<exists>award g.
      resolve_award example_services item = Inr (Dumped award) \<and>
      serialize_grant example_services award = Inr g"
    using known_funding_serialized by simp
  from dump_grants_one_grant_per_item
    [of "[(''funding'', JList [known_funding])]" "[known_funding]" example_services]
    contract all
  show ?thesis
    by simp
qed

text \<open>
  The grant of this record, computed: the DOI is that of the funder of the
  award, not of the funder that the funding item names.
\<close>

lemma dump_grants_example:
  "dump_grants example_services (JDict [(''funding'', JList [known_funding])]) =
     Inr (Dumped (JList [JDict [(''id'', JStr ''10.13039/501100000780::755021'')]]))"
  using known_funding_serialized by (simp add: dump_grants_def)

text \<open>
  C1 as the specification states it fails for a record whose funding list is
  not empty and names an award that the awards service does not know: the
  method returns \<^verbatim>\<open>missing\<close>, and no list of grants.
\<close>

theorem dump_grants_one_grant_per_item_counterexample:
  "dump_grants example_services (JDict [(''funding'', JList [unknown_funding])]) = Inr Missing \<and>
   \<not> (\<exists>gs. dump_grants example_services (JDict [(''funding'', JList [unknown_funding])]) =
          Inr (Dumped (JList gs)) \<and> length gs = length [unknown_funding])"
  by (simp add: dump_grants_def resolve_award_def example_services_def unknown_funding_def)

subsection \<open>Where the code raises\<close>

text \<open>
  The properties above are stated for well-formed input. Outside of it the
  code raises, and returns nothing: an embargoed entry without an embargo
  date, an index that is \<^verbatim>\<open>null\<close>, a checksum without a colon, a resource type
  id that is no string, a funding item without an award (funder-only
  funding), and a custom award, which has no id and no \<^verbatim>\<open>funder\<close> of its own.
\<close>

lemma entry_access_embargo_without_date:
  "entry_access (JDict [(''json'', JDict [(''access_right'', JStr ''embargoed'')])]) = Inl KeyError"
  by (simp add: entry_access_def)

lemma entry_index_null:
  "entry_index (JDict [(''index'', JNone)]) = Inl TypeError"
  by (simp add: entry_index_def)

lemma dump_file_checksum_without_colon:
  "dump_file JNone (JStr ''https://zenodo.org/api/records/1/files'')
     (JDict [(''id'', JStr ''f1''), (''key'', JStr ''a.txt''),
             (''size'', JInt 3), (''checksum'', JStr ''0a1b'')]) = Inl IndexError"
  by (simp add: dump_file_def py_index_def)

lemma dump_resource_type_id_not_a_string:
  "dump_resource_type [] (JDict [(''resource_type'', JDict [(''id'', JInt 7)])]) =
     Inl AttributeError"
  by (simp add: dump_resource_type_def)

lemma dump_grants_funder_only:
  "dump_grants sv
     (JDict [(''funding'', JList [JDict [(''funder'', JDict [(''id'', JStr ''00k4n6c32'')])]])]) =
     Inl AttributeError"
  by (simp add: dump_grants_def resolve_award_def)

lemma dump_grants_custom_award:
  "dump_grants sv
     (JDict [(''funding'', JList
        [JDict [(''funder'', JDict [(''id'', JStr ''00k4n6c32'')]),
                (''award'', JDict [(''number'', JStr ''755021''),
                                   (''title'', JDict [(''en'', JStr ''A project'')])])]])]) =
     Inl KeyError"
  by (simp add: dump_grants_def resolve_award_def serialize_grant_def)

end
